theory Spec2Isabelle
  imports Main "HOL-Library.Sublist"
begin

section \<open>Errors\<close>

text \<open>
  Failures are values. \<open>KeyError\<close>, \<open>IndexError\<close> and \<open>ValueError\<close> are the Python
  exceptions that \<^verbatim>\<open>QuteBrowser.cmd_handler\<close> can raise by itself (\<^verbatim>\<open>handlers[cmd]\<close> on
  a missing key, \<^verbatim>\<open>argv[0]\<close> on an empty list, the unpacking of \<^verbatim>\<open>tpl\<close> into two
  names). The other five are the interaction-time errors named by the specification.
\<close>

datatype error =
    KeyError string
  | IndexError
  | ValueError
  | NoMatchError
  | UnknownCommandError
  | CountNotSupportedError
  | EmptyCommandError
  | MalformedCountError

section \<open>The dispatcher: \<^verbatim>\<open>QuteBrowser.cmd_handler\<close>\<close>

text \<open>
  The values of the handler table are bound methods of the main window's tab widget and
  of the application object. They are external actions; each is named by a constructor.
\<close>

datatype handler =
    Openurl
  | Tabopen
  | Quit
  | Cur_close
  | Switch_prev
  | Switch_next
  | Cur_reload
  | Cur_stop
  | Cur_back
  | Cur_forward
  | Cur_print
  | Cur_scroll
  | Cur_scroll_percent_x
  | Cur_scroll_percent_y
  | Undo_close
  | Pyeval

text \<open>
  A Python dict display \<^verbatim>\<open>{k1: v1, k2: v2, ...}\<close> stores its items from left to right,
  so a key written twice keeps the value written last.
\<close>

definition dict_literal :: "('k \<times> 'v) list \<Rightarrow> ('k \<rightharpoonup> 'v)" where
  "dict_literal items = foldl (\<lambda>m (k, v). m(k \<mapsto> v)) Map.empty items"

text \<open>The items of \<^verbatim>\<open>handlers\<close> in the order of the source (lines 142 to 159).\<close>

definition handler_items :: "(string \<times> handler) list" where
  "handler_items =
    [(''open'', Openurl),
     (''tabopen'', Tabopen),
     (''quit'', Quit),
     (''tabclose'', Cur_close),
     (''tabprev'', Switch_prev),
     (''tabnext'', Switch_next),
     (''reload'', Cur_reload),
     (''stop'', Cur_stop),
     (''back'', Cur_back),
     (''forward'', Cur_forward),
     (''print'', Cur_print),
     (''scroll'', Cur_scroll),
     (''scroll_perc_y'', Cur_scroll_percent_x),
     (''scroll_perc_y'', Cur_scroll_percent_y),
     (''undo'', Undo_close),
     (''pyeval'', Pyeval)]"

definition handlers :: "string \<rightharpoonup> handler" where
  "handlers = dict_literal handler_items"

text \<open>
  What \<^verbatim>\<open>cmd_handler\<close> does on success is one call of a handler. The call is recorded
  with its positional arguments and its keyword argument: \<open>call_count = None\<close> is a call
  without the keyword \<^verbatim>\<open>count\<close> (\<^verbatim>\<open>handler(*args)\<close>), and \<open>call_count = Some c\<close> is
  \<^verbatim>\<open>handler(*args, count=c)\<close>, where \<open>c\<close> itself may be Python's \<^verbatim>\<open>None\<close>.
\<close>

record call =
  call_handler :: handler
  call_args :: "string list"
  call_count :: "int option option"

text \<open>
  \<^verbatim>\<open>tpl\<close> is the pair \<^verbatim>\<open>(count, argv)\<close> with \<^verbatim>\<open>argv = [cmd, arg, ...]\<close>; the count is an
  integer or \<^verbatim>\<open>None\<close>.
\<close>

type_synonym tpl = "int option \<times> string list"

text \<open>
  \<^verbatim>\<open>self.sender().count\<close>, the count attribute of the command whose signal called the
  handler, is the parameter \<open>sender_count\<close>. The statements are those of lines 138 to 166:
  \<^verbatim>\<open>argv[0]\<close> raises IndexError on an empty list, \<^verbatim>\<open>handlers[cmd]\<close> raises KeyError on a
  missing key, and the branch on the sender's attribute chooses the form of the call.
\<close>

definition cmd_handler :: "bool \<Rightarrow> tpl \<Rightarrow> error + call" where
  "cmd_handler sender_count tpl =
    (case tpl of (count, argv) \<Rightarrow>
      (case argv of
         [] \<Rightarrow> Inl IndexError
       | cmd # args \<Rightarrow>
          (case handlers cmd of
             None \<Rightarrow> Inl (KeyError cmd)
           | Some handler \<Rightarrow>
              if sender_count
              then Inr \<lparr>call_handler = handler, call_args = args, call_count = Some count\<rparr>
              else Inr \<lparr>call_handler = handler, call_args = args, call_count = None\<rparr>)))"

section \<open>The action \<^verbatim>\<open>QuteBrowser.pyeval\<close>\<close>

text \<open>
  What reading an attribute of an object gives to a caller that needs a string: the
  read raises, or it gives a string, or it gives an object of another type (named by
  its type).
\<close>

datatype 'e attr =
    Attr_raises 'e
  | Attr_str string
  | Attr_other string

text \<open>
  A raised Python exception, as far as line 173 and line 174 look at it: whether it is an
  instance of \<^verbatim>\<open>Exception\<close> (\<^verbatim>\<open>SystemExit\<close>, \<^verbatim>\<open>KeyboardInterrupt\<close> and \<^verbatim>\<open>GeneratorExit\<close>
  derive from \<^verbatim>\<open>BaseException\<close> only), what \<^verbatim>\<open>e.__class__.__name__\<close> gives, and what
  \<^verbatim>\<open>str(e)\<close> gives. Both are calls into the exception's class, which may define
  \<^verbatim>\<open>__class__\<close> and \<^verbatim>\<open>__str__\<close> itself: each returns or raises a further exception.
\<close>

datatype py_exc =
  Py_exc (exc_is_Exception: bool) (exc_class_name: "py_exc attr") (exc_str: "py_exc + string")

text \<open>
  The built-ins of the host language that \<^verbatim>\<open>pyeval\<close> calls are parameters: \<^verbatim>\<open>eval\<close>,
  \<^verbatim>\<open>repr\<close> and \<^verbatim>\<open>str.encode('UTF-8')\<close>. Each returns or raises.
\<close>

record 'v python =
  py_eval :: "string \<Rightarrow> py_exc + 'v"
  py_repr :: "'v \<Rightarrow> py_exc + string"
  py_encode_utf8 :: "string \<Rightarrow> py_exc + string"

text \<open>
  The part of a tab that \<^verbatim>\<open>pyeval\<close> writes: the argument of the last \<^verbatim>\<open>setUrl\<close> and
  the two arguments of the last \<^verbatim>\<open>setContent\<close>.
\<close>

record tab =
  tab_url :: string
  tab_content :: string
  tab_mimetype :: string

text \<open>\<^verbatim>\<open>sep.join(xs)\<close> of Python, on a list of strings.\<close>

fun join :: "string \<Rightarrow> string list \<Rightarrow> string" where
  "join sep [] = []"
| "join sep [x] = x"
| "join sep (x # y # ys) = x @ sep @ join sep (y # ys)"

text \<open>
  The TypeError that \<^verbatim>\<open>join\<close> raises when the first item of its list is not a string
  but an object of the type \<open>ty\<close>.
\<close>

definition join_item0_TypeError :: "string \<Rightarrow> py_exc" where
  "join_item0_TypeError ty =
    Py_exc True (Attr_str ''TypeError'')
      (Inr (''sequence item 0: expected str instance, '' @ ty @ '' found''))"

text \<open>
  Lines 173 and 174, the clause \<^verbatim>\<open>except Exception as e\<close> with its body
  \<^verbatim>\<open>out = ': '.join([e.__class__.__name__, str(e)])\<close>. An exception that is not an
  instance of \<^verbatim>\<open>Exception\<close> is not caught. For one that is, the list is built from left
  to right: first the class name is read, then \<^verbatim>\<open>str(e)\<close> is called, then \<^verbatim>\<open>join\<close>
  runs. Nothing guards this line: an exception raised by any of the three leaves
  \<^verbatim>\<open>pyeval\<close>.
\<close>

definition except_Exception :: "py_exc \<Rightarrow> py_exc + string" where
  "except_Exception e =
    (if exc_is_Exception e
     then (case exc_class_name e of
             Attr_raises x \<Rightarrow> Inl x
           | Attr_str name \<Rightarrow>
              (case exc_str e of
                 Inl x \<Rightarrow> Inl x
               | Inr msg \<Rightarrow> Inr (join '': '' [name, msg]))
           | Attr_other ty \<Rightarrow>
              (case exc_str e of
                 Inl x \<Rightarrow> Inl x
               | Inr msg \<Rightarrow> Inl (join_item0_TypeError ty)))
     else Inl e)"

text \<open>
  Lines 171 and 172, the body of the \<^verbatim>\<open>try\<close> statement: \<^verbatim>\<open>r = eval(s)\<close>, then
  \<^verbatim>\<open>out = repr(r)\<close>. It yields the text \<^verbatim>\<open>out\<close> or the exception raised on the way.
\<close>

definition try_body :: "'v python \<Rightarrow> string \<Rightarrow> py_exc + string" where
  "try_body py s =
    (case py_eval py s of
       Inl e \<Rightarrow> Inl e
     | Inr r \<Rightarrow> py_repr py r)"

text \<open>Lines 170 to 174: the \<^verbatim>\<open>try\<close> statement that computes \<^verbatim>\<open>out\<close>.\<close>

definition pyeval_out :: "'v python \<Rightarrow> string \<Rightarrow> py_exc + string" where
  "pyeval_out py s =
    (case try_body py s of
       Inl e \<Rightarrow> except_Exception e
     | Inr out \<Rightarrow> Inr out)"

text \<open>
  The calls into the window that \<^verbatim>\<open>pyeval\<close> makes are parameters as well:
  \<^verbatim>\<open>self.mainwindow.tabs.currentWidget()\<close> returns the current tab, returns \<^verbatim>\<open>None\<close> when
  there is no tab, or raises; \<^verbatim>\<open>setUrl\<close> and \<^verbatim>\<open>setContent\<close> of the tab return (\<open>None\<close>
  here) or raise.
\<close>

record qt =
  qt_currentWidget :: "py_exc + tab option"
  qt_setUrl :: "py_exc option"
  qt_setContent :: "py_exc option"

text \<open>Reading \<^verbatim>\<open>setUrl\<close> on \<^verbatim>\<open>None\<close> raises AttributeError.\<close>

definition none_has_no_setUrl :: py_exc where
  "none_has_no_setUrl =
    Py_exc True (Attr_str ''AttributeError'')
      (Inr ([CHR 0x27] @ ''NoneType'' @ [CHR 0x27] @ '' object has no attribute ''
        @ [CHR 0x27] @ ''setUrl'' @ [CHR 0x27]))"

text \<open>
  The whole method (lines 168 to 180). The result is the tab that \<^verbatim>\<open>pyeval\<close> obtained,
  as \<^verbatim>\<open>pyeval\<close> leaves it (\<open>None\<close> when it obtained none), together with the exception
  that leaves \<^verbatim>\<open>pyeval\<close>, if any. Line 178 obtains the tab; line 179 calls \<^verbatim>\<open>setUrl\<close>;
  line 180 encodes the text and then calls \<^verbatim>\<open>setContent\<close>, so a failing \<^verbatim>\<open>encode\<close>
  leaves the URL already changed.
\<close>

definition pyeval :: "'v python \<Rightarrow> qt \<Rightarrow> string \<Rightarrow> tab option \<times> py_exc option" where
  "pyeval py q s =
    (case pyeval_out py s of
       Inl e \<Rightarrow> (None, Some e)
     | Inr out \<Rightarrow>
        (case qt_currentWidget q of
           Inl e \<Rightarrow> (None, Some e)
         | Inr None \<Rightarrow> (None, Some none_has_no_setUrl)
         | Inr (Some t) \<Rightarrow>
            (case qt_setUrl q of
               Some e \<Rightarrow> (Some t, Some e)
             | None \<Rightarrow>
                (case py_encode_utf8 py out of
                   Inl e \<Rightarrow> (Some (t\<lparr>tab_url := ''about:pyeval''\<rparr>), Some e)
                 | Inr bytes \<Rightarrow>
                    (case qt_setContent q of
                       Some e \<Rightarrow> (Some (t\<lparr>tab_url := ''about:pyeval''\<rparr>), Some e)
                     | None \<Rightarrow>
                        (Some (t\<lparr>tab_url := ''about:pyeval'', tab_content := bytes,
                                  tab_mimetype := ''text/plain''\<rparr>), None))))))"

text \<open>
  A fragment of the host interpreter, enough to run \<^verbatim>\<open>pyeval\<close> on three expressions:
  \<^verbatim>\<open>sys.exit()\<close> raises \<^verbatim>\<open>SystemExit\<close> (the module imports \<^verbatim>\<open>sys\<close>), \<^verbatim>\<open>1/0\<close> raises
  \<^verbatim>\<open>ZeroDivisionError\<close> with the message \<^verbatim>\<open>division by zero\<close>, and \<^verbatim>\<open>1+1\<close> is the integer
  2. Any other expression is rejected here with a \<^verbatim>\<open>SyntaxError\<close>.
\<close>

definition eval_fragment :: "string \<Rightarrow> py_exc + int" where
  "eval_fragment s =
    (if s = ''sys.exit()'' then Inl (Py_exc False (Attr_str ''SystemExit'') (Inr []))
     else if s = ''1/0''
     then Inl (Py_exc True (Attr_str ''ZeroDivisionError'') (Inr ''division by zero''))
     else if s = ''1+1'' then Inr 2
     else Inl (Py_exc True (Attr_str ''SyntaxError'') (Inr ''invalid syntax'')))"

definition repr_fragment :: "int \<Rightarrow> py_exc + string" where
  "repr_fragment r =
    (if r = 2 then Inr ''2''
     else Inl (Py_exc True (Attr_str ''NotImplementedError'') (Inr [])))"

definition python_fragment :: "int python" where
  "python_fragment =
    \<lparr>py_eval = eval_fragment, py_repr = repr_fragment, py_encode_utf8 = Inr\<rparr>"

definition blank_tab :: tab where
  "blank_tab = \<lparr>tab_url = ''about:blank'', tab_content = [], tab_mimetype = ''text/html''\<rparr>"

text \<open>A window with one blank tab, whose calls all return.\<close>

definition blank_window :: qt where
  "blank_window =
    \<lparr>qt_currentWidget = Inr (Some blank_tab), qt_setUrl = None, qt_setContent = None\<rparr>"

text \<open>
  An exception of a class that derives from \<^verbatim>\<open>Exception\<close> and whose \<^verbatim>\<open>__str__\<close> divides
  by zero, and an interpreter in which every expression raises it.
\<close>

definition str_raises :: py_exc where
  "str_raises =
    Py_exc True (Attr_str ''E'')
      (Inl (Py_exc True (Attr_str ''ZeroDivisionError'') (Inr ''division by zero'')))"

definition python_str_raises :: "int python" where
  "python_str_raises =
    \<lparr>py_eval = (\<lambda>s. Inl str_raises), py_repr = repr_fragment, py_encode_utf8 = Inr\<rparr>"

section \<open>\<^verbatim>\<open>cmd_handler\<close> as the slot of a command's signal\<close>

text \<open>
  \<^verbatim>\<open>init_cmds\<close> connects the signal of every command to \<^verbatim>\<open>cmd_handler\<close> (line 124), so
  the payload of that signal, the invocation notification, is the argument \<^verbatim>\<open>tpl\<close>. Two
  shapes of payload are told apart: the pair \<^verbatim>\<open>(count, argv)\<close> of the docstring, and a
  tuple of the three components \<^verbatim>\<open>(count, name, args)\<close>.
\<close>

datatype notification =
    Two "int option" "string list"
  | Three "int option" string "string list"

text \<open>
  How a run of \<^verbatim>\<open>cmd_handler\<close> ends: the handler was called and returned; an exception
  was raised before any handler was called; the handler was called and raised.
\<close>

datatype outcome =
    Returned call
  | Dispatch_error error
  | Handler_error call py_exc

text \<open>
  The whole of \<^verbatim>\<open>cmd_handler\<close> (lines 138 to 166) on a notification. Line 138,
  \<^verbatim>\<open>(count, argv) = tpl\<close>, unpacks into exactly two targets: a tuple of three components
  raises ValueError. Lines 139 to 163 are \<open>cmd_handler\<close> above. Lines 164 and 166 call the
  handler; the handlers are actions outside this module, so what a call does is the
  parameter \<open>invoke\<close>: \<open>None\<close> when the handler returns, or the exception it raises,
  which then leaves \<^verbatim>\<open>cmd_handler\<close>. The call of the handler is the last statement.
\<close>

definition cmd_handler_slot ::
  "(call \<Rightarrow> py_exc option) \<Rightarrow> bool \<Rightarrow> notification \<Rightarrow> outcome" where
  "cmd_handler_slot invoke sender_count n =
    (case n of
       Three count name args \<Rightarrow> Dispatch_error ValueError
     | Two count argv \<Rightarrow>
        (case cmd_handler sender_count (count, argv) of
           Inl e \<Rightarrow> Dispatch_error e
         | Inr c \<Rightarrow>
            (case invoke c of
               None \<Rightarrow> Returned c
             | Some x \<Rightarrow> Handler_error c x)))"

text \<open>Handlers that all return.\<close>

definition all_return :: "call \<Rightarrow> py_exc option" where
  "all_return c = None"

section \<open>The command-line parser\<close>

text \<open>
  The module \<^verbatim>\<open>qutebrowser.commands.utils\<close>, which holds the command parser and the
  command registry, is imported by \<^verbatim>\<open>app.py\<close> but is not among the sources. The parser is
  therefore written from section 4.3 of the specification.
\<close>

text \<open>Modelled from the spec: the whitespace that delimits tokens (parser of
  \<^verbatim>\<open>qutebrowser.commands.utils\<close>, missing).\<close>

definition is_space :: "char \<Rightarrow> bool" where
  "is_space c = (c \<in> set [CHR '' '', CHR 0x09, CHR 0x0A, CHR 0x0B, CHR 0x0C, CHR 0x0D])"

text \<open>Modelled from the spec: the decimal digits of a count (parser of
  \<^verbatim>\<open>qutebrowser.commands.utils\<close>, missing).\<close>

definition is_digit :: "char \<Rightarrow> bool" where
  "is_digit c = (c \<in> set ''0123456789'')"

text \<open>Modelled from the spec: tokenizing by whitespace, with no quoting; \<open>cur\<close> is the
  token being read (parser of \<^verbatim>\<open>qutebrowser.commands.utils\<close>, missing).\<close>

fun split_ws_acc :: "string \<Rightarrow> string \<Rightarrow> string list" where
  "split_ws_acc cur [] = (if cur = [] then [] else [cur])"
| "split_ws_acc cur (c # cs) =
    (if is_space c
     then (if cur = [] then split_ws_acc [] cs else cur # split_ws_acc [] cs)
     else split_ws_acc (cur @ [c]) cs)"

text \<open>Modelled from the spec: the whitespace-delimited tokens of a line (parser of
  \<^verbatim>\<open>qutebrowser.commands.utils\<close>, missing).\<close>

definition split_ws :: "string \<Rightarrow> string list" where
  "split_ws line = split_ws_acc [] line"

text \<open>Modelled from the spec: the value of one decimal digit
  (parser of \<^verbatim>\<open>qutebrowser.commands.utils\<close>, missing).\<close>

definition digit_val :: "char \<Rightarrow> nat" where
  "digit_val c = of_char c - of_char CHR ''0''"

text \<open>Modelled from the spec: the value of a count prefix, most significant digit first
  (parser of \<^verbatim>\<open>qutebrowser.commands.utils\<close>, missing).\<close>

definition count_of_digits :: "string \<Rightarrow> nat" where
  "count_of_digits ds = foldl (\<lambda>n c. 10 * n + digit_val c) 0 ds"

text \<open>Modelled from the spec: a count prefix is a whitespace-delimited run of decimal
  digits (parser of \<^verbatim>\<open>qutebrowser.commands.utils\<close>, missing).\<close>

definition is_count_token :: "string \<Rightarrow> bool" where
  "is_count_token t = (t \<noteq> [] \<and> list_all is_digit t)"

text \<open>Modelled from the spec: the ParsedInvocation of section 3: an optional
  non-negative count, a name and the arguments (missing from the sources).\<close>

record parsed_invocation =
  inv_count :: "nat option"
  inv_name :: string
  inv_args :: "string list"

text \<open>Modelled from the spec: the parser of section 4.3 (\<^verbatim>\<open>CommandParser\<close> of
  \<^verbatim>\<open>qutebrowser.commands.utils\<close>, missing). A leading token of digits is the count; the
  next token is the name; the remaining tokens are the arguments. No token at all is
  EmptyCommandError; a count with nothing after it is MalformedCountError.\<close>

definition parse_line :: "string \<Rightarrow> error + parsed_invocation" where
  "parse_line line =
    (case split_ws line of
       [] \<Rightarrow> Inl EmptyCommandError
     | t # rest \<Rightarrow>
        if is_count_token t
        then (case rest of
                [] \<Rightarrow> Inl MalformedCountError
              | name # args \<Rightarrow>
                 Inr \<lparr>inv_count = Some (count_of_digits t), inv_name = name, inv_args = args\<rparr>)
        else Inr \<lparr>inv_count = None, inv_name = t, inv_args = rest\<rparr>)"

text \<open>
  The tuple that \<^verbatim>\<open>cmd_handler\<close> receives for an invocation, in the form its docstring
  gives: \<^verbatim>\<open>(count, argv)\<close> where \<^verbatim>\<open>argv\<close> is \<^verbatim>\<open>[cmd, arg, ...]\<close>.
\<close>

definition invocation_tpl :: "parsed_invocation \<Rightarrow> tpl" where
  "invocation_tpl p = (map_option int (inv_count p), inv_name p # inv_args p)"

section \<open>The key-sequence matcher\<close>

text \<open>
  The module \<^verbatim>\<open>qutebrowser.commands.keys\<close> with its \<^verbatim>\<open>KeyParser\<close> is imported by
  \<^verbatim>\<open>app.py\<close> (its \<^verbatim>\<open>handle\<close> is connected to the key presses on line 52) but is not
  among the sources. The matcher is written from sections 3 and 4.2 of the specification.
\<close>

text \<open>Modelled from the spec: a key token in its textual encoding, such as \<^verbatim>\<open>g\<close> or
  \<^verbatim>\<open><Ctrl-c>\<close> (\<^verbatim>\<open>KeyParser\<close>, missing).\<close>

type_synonym key = string

text \<open>Modelled from the spec: the MatcherState of section 3 (\<^verbatim>\<open>KeyParser\<close>, missing).\<close>

record matcher_state =
  pending_digits :: string
  pending_keys :: "key list"

text \<open>Modelled from the spec: the initial state, with both accumulators empty
  (\<^verbatim>\<open>KeyParser\<close>, missing).\<close>

definition Idle :: matcher_state where
  "Idle = \<lparr>pending_digits = [], pending_keys = []\<rparr>"

text \<open>Modelled from the spec: the binding table, from key sequences to command-line
  templates (\<^verbatim>\<open>KeyParser\<close>, missing).\<close>

type_synonym bindings = "(key list \<times> string) list"

text \<open>Modelled from the spec: what one key event makes the matcher emit: a resolved
  binding with its count, an error signal, or nothing (\<^verbatim>\<open>KeyParser\<close>, missing).\<close>

datatype emission =
    Resolved "nat option" string
  | Failed error
  | Nothing

text \<open>Modelled from the spec: the designated cancel key of transition 4
  (\<^verbatim>\<open>KeyParser\<close>, missing).\<close>

definition cancel_key :: key where
  "cancel_key = ''<Escape>''"

text \<open>Modelled from the spec: an event that is one decimal digit
  (\<^verbatim>\<open>KeyParser\<close>, missing).\<close>

definition is_digit_key :: "key \<Rightarrow> bool" where
  "is_digit_key e = (case e of [c] \<Rightarrow> is_digit c | _ \<Rightarrow> False)"

text \<open>Modelled from the spec: transitions 1 and 2 of section 4.2. A digit is a count
  digit when no key token has been read yet and either digits are pending or the digit
  is not \<^verbatim>\<open>0\<close>; every other event is a key token (\<^verbatim>\<open>KeyParser\<close>, missing).\<close>

definition append_event :: "matcher_state \<Rightarrow> key \<Rightarrow> matcher_state" where
  "append_event st e =
    (if pending_keys st = [] \<and> is_digit_key e \<and> (pending_digits st \<noteq> [] \<or> e \<noteq> ''0'')
     then st\<lparr>pending_digits := pending_digits st @ e\<rparr>
     else st\<lparr>pending_keys := pending_keys st @ [e]\<rparr>)"

text \<open>Modelled from the spec: the count of a resolved sequence, absent when no digit is
  pending (\<^verbatim>\<open>KeyParser\<close>, missing).\<close>

definition pending_count :: "matcher_state \<Rightarrow> nat option" where
  "pending_count st =
    (if pending_digits st = [] then None else Some (count_of_digits (pending_digits st)))"

text \<open>Modelled from the spec: some binding has the pending keys as a strict prefix
  (\<^verbatim>\<open>KeyParser\<close>, missing).\<close>

definition has_longer :: "bindings \<Rightarrow> key list \<Rightarrow> bool" where
  "has_longer bt ks = list_ex (\<lambda>b. strict_prefix ks (fst b)) bt"

text \<open>Modelled from the spec: the exact match remembered as a fallback while the matcher
  waits for a longer binding. The state has no field for it: it is the template of the
  longest proper prefix of the pending keys that is itself bound
  (\<^verbatim>\<open>KeyParser\<close>, missing).\<close>

definition fallback :: "bindings \<Rightarrow> key list \<Rightarrow> string option" where
  "fallback bt ks =
    (case List.find (\<lambda>p. map_of bt p \<noteq> None) (rev (butlast (prefixes ks))) of
       None \<Rightarrow> None
     | Some p \<Rightarrow> map_of bt p)"

text \<open>Modelled from the spec: transition 3 of section 4.2, the comparison with the
  binding table after every append. An exact match with no longer binding resolves and
  resets; an exact match with a longer binding waits; a proper prefix waits; a dead end
  resets, digits included, and emits NoMatchError, unless a fallback is remembered, which
  is then resolved (the policy named in section 9: wait for the longer match, fall back
  to the shorter on a dead end) (\<^verbatim>\<open>KeyParser\<close>, missing).\<close>

definition compare_table :: "bindings \<Rightarrow> matcher_state \<Rightarrow> matcher_state \<times> emission" where
  "compare_table bt st =
    (case map_of bt (pending_keys st) of
       Some template \<Rightarrow>
        if has_longer bt (pending_keys st) then (st, Nothing)
        else (Idle, Resolved (pending_count st) template)
     | None \<Rightarrow>
        if has_longer bt (pending_keys st) then (st, Nothing)
        else (case fallback bt (pending_keys st) of
                Some template \<Rightarrow> (Idle, Resolved (pending_count st) template)
              | None \<Rightarrow> (Idle, Failed NoMatchError)))"

text \<open>Modelled from the spec: one key event, transitions 1 to 4 of section 4.2
  (\<^verbatim>\<open>KeyParser.handle\<close>, missing). The cancel key resets from any state.\<close>

definition handle :: "bindings \<Rightarrow> matcher_state \<Rightarrow> key \<Rightarrow> matcher_state \<times> emission" where
  "handle bt st e =
    (if e = cancel_key then (Idle, Nothing) else compare_table bt (append_event st e))"

text \<open>Modelled from the spec: a sequence of key events, one after the other, with
  everything emitted on the way (\<^verbatim>\<open>KeyParser\<close>, missing).\<close>

fun feed :: "bindings \<Rightarrow> matcher_state \<Rightarrow> key list \<Rightarrow> matcher_state \<times> emission list" where
  "feed bt st [] = (st, [])"
| "feed bt st (e # es) =
    (case handle bt st e of
       (st', out) \<Rightarrow> (case feed bt st' es of (st'', outs) \<Rightarrow> (st'', out # outs)))"

text \<open>Modelled from the spec: the table of section 8 with two bindings that share their
  first key.\<close>

definition scroll_bindings :: bindings where
  "scroll_bindings = [([''g'', ''g''], ''scroll top''), ([''g'', ''~''], ''something-else'')]"

text \<open>Modelled from the spec: the single binding of section 8, used with a count.\<close>

definition delete_bindings :: bindings where
  "delete_bindings = [([''d''], ''delete'')]"

text \<open>Modelled from the spec: a table in which one bound sequence is a strict prefix of
  another, the case of the wait policy.\<close>

definition prefix_bindings :: bindings where
  "prefix_bindings = [([''g''], ''top''), ([''g'', ''g''], ''scroll top'')]"

section \<open>Facts about the handler table\<close>

lemma dict_literal_foldl:
  "foldl (\<lambda>m (k, v). m(k \<mapsto> v)) m0 items = m0 ++ map_of (rev items)"
proof (induction items arbitrary: m0)
  case Nil
  show ?case by simp
next
  case (Cons p items)
  obtain k v where p: "p = (k, v)" by (cases p)
  have "foldl (\<lambda>m (k, v). m(k \<mapsto> v)) m0 (p # items)
      = foldl (\<lambda>m (k, v). m(k \<mapsto> v)) (m0(k \<mapsto> v)) items"
    by (simp add: p)
  also have "\<dots> = (m0(k \<mapsto> v)) ++ map_of (rev items)"
    by (rule Cons.IH)
  also have "\<dots> = m0 ++ map_of (rev (p # items))"
    unfolding p by (rule ext) (simp add: map_add_def split: option.splits)
  finally show ?case .
qed

lemma handlers_map_of: "handlers = map_of (rev handler_items)"
  by (simp add: handlers_def dict_literal_def dict_literal_foldl)

lemma handlers_scroll_perc_y: "handlers ''scroll_perc_y'' = Some Cur_scroll_percent_y"
  by (simp add: handlers_map_of handler_items_def)

lemma handlers_never_percent_x: "handlers cmd \<noteq> Some Cur_scroll_percent_x"
proof
  assume "handlers cmd = Some Cur_scroll_percent_x"
  then have "map_of (rev handler_items) cmd = Some Cur_scroll_percent_x"
    by (simp add: handlers_map_of)
  then show False
    by (simp add: handler_items_def split: if_splits)
qed

lemma handlers_tabclose: "handlers ''tabclose'' = Some Cur_close"
  by (simp add: handlers_map_of handler_items_def)

lemma handlers_scroll: "handlers ''scroll'' = Some Cur_scroll"
  by (simp add: handlers_map_of handler_items_def)

lemma handlers_quit: "handlers ''quit'' = Some Quit"
  by (simp add: handlers_map_of handler_items_def)

lemma handlers_scroll_perc_x: "handlers ''scroll_perc_x'' = None"
  by (simp add: handlers_map_of handler_items_def)

lemma handlers_nosuchcmd: "handlers ''nosuchcmd'' = None"
  by (simp add: handlers_map_of handler_items_def)

section \<open>Facts about \<^verbatim>\<open>cmd_handler\<close>\<close>

lemma cmd_handler_found:
  "handlers cmd = Some h \<Longrightarrow>
   cmd_handler sc (count, cmd # args) =
     Inr \<lparr>call_handler = h, call_args = args,
          call_count = (if sc then Some count else None)\<rparr>"
  by (simp add: cmd_handler_def)

lemma cmd_handler_missing:
  "handlers cmd = None \<Longrightarrow> cmd_handler sc (count, cmd # args) = Inl (KeyError cmd)"
  by (simp add: cmd_handler_def)

lemma cmd_handler_empty: "cmd_handler sc (count, []) = Inl IndexError"
  by (simp add: cmd_handler_def)

lemma cmd_handler_Inr:
  "cmd_handler sc tpl = Inr c \<Longrightarrow> handlers (hd (snd tpl)) = Some (call_handler c)"
  by (auto simp: cmd_handler_def split: prod.splits list.splits option.splits if_splits)

lemma cmd_handler_Inl:
  "cmd_handler sc tpl = Inl e \<Longrightarrow>
   (snd tpl = [] \<and> e = IndexError) \<or>
   (snd tpl \<noteq> [] \<and> handlers (hd (snd tpl)) = None \<and> e = KeyError (hd (snd tpl)))"
  by (auto simp: cmd_handler_def split: prod.splits list.splits option.splits if_splits)

section \<open>The dispatcher and the count\<close>

text \<open>
  Claim C1, as the specification states it: for a command registered without support
  for a count, dispatching an invocation that carries a count fails with
  CountNotSupportedError and does not invoke the action. The code does otherwise: on the
  invocation \<^verbatim>\<open>(5, ['quit'])\<close> from a sender whose count attribute is false,
  \<^verbatim>\<open>cmd_handler\<close> calls the handler, and raises nothing.
\<close>

theorem count_not_rejected_counterexample:
  "cmd_handler False (Some 5, [''quit'']) =
     Inr \<lparr>call_handler = Quit, call_args = [], call_count = None\<rparr>
   \<and> cmd_handler False (Some 5, [''quit'']) \<noteq> Inl CountNotSupportedError"
  by (simp add: cmd_handler_found [OF handlers_quit])

text \<open>
  Claim C1, amended: for every command of the handler table whose sender does not
  support a count, dispatching an invocation that carries a count \<open>n\<close> calls the
  command's handler with the arguments and without a count keyword: the count is
  dropped, and no error is raised.
\<close>

theorem count_dropped_without_flag:
  "handlers name = Some h \<Longrightarrow>
   cmd_handler False (Some n, name # args) =
     Inr \<lparr>call_handler = h, call_args = args, call_count = None\<rparr>"
  by (simp add: cmd_handler_found)

theorem count_dropped_without_flag_witness:
  "handlers ''tabclose'' = Some Cur_close
   \<and> cmd_handler False (Some 5, [''tabclose'']) =
       Inr \<lparr>call_handler = Cur_close, call_args = [], call_count = None\<rparr>"
proof (rule conjI)
  show "handlers ''tabclose'' = Some Cur_close"
    by (rule handlers_tabclose)
  then show "cmd_handler False (Some 5, [''tabclose'']) =
       Inr \<lparr>call_handler = Cur_close, call_args = [], call_count = None\<rparr>"
    by (rule count_dropped_without_flag)
qed

text \<open>
  Claim C2, as the specification states it: the count is passed as a named parameter
  exactly when the command accepts a count and a count was supplied. The code passes the
  keyword whenever the sender's count attribute is true: with no count supplied, the
  handler of \<^verbatim>\<open>scroll\<close> is called with \<^verbatim>\<open>count=None\<close>.
\<close>

theorem count_keyword_counterexample:
  "cmd_handler True (None, [''scroll'', ''10'']) =
     Inr \<lparr>call_handler = Cur_scroll, call_args = [''10''], call_count = Some None\<rparr>"
  by (simp add: cmd_handler_found [OF handlers_scroll])

text \<open>
  Claim C2, amended: for every dispatched invocation of a command of the handler table,
  the handler is called with the count keyword exactly when the sender's count attribute
  is true, and the keyword's value is the count of the invocation, which is \<^verbatim>\<open>None\<close>
  when no count was supplied; when the attribute is false the handler is called with no
  count parameter at all.
\<close>

theorem count_keyword_follows_flag:
  "handlers name = Some h \<Longrightarrow>
   cmd_handler sender_count (count, name # args) =
     Inr \<lparr>call_handler = h, call_args = args,
          call_count = (if sender_count then Some count else None)\<rparr>"
  by (rule cmd_handler_found)

theorem count_keyword_follows_flag_witness:
  "handlers ''scroll'' = Some Cur_scroll
   \<and> cmd_handler True (Some 3, [''scroll'', ''10'']) =
       Inr \<lparr>call_handler = Cur_scroll, call_args = [''10''],
            call_count = (if True then Some (Some 3) else None)\<rparr>
   \<and> cmd_handler False (None, [''scroll'', ''10'']) =
       Inr \<lparr>call_handler = Cur_scroll, call_args = [''10''],
            call_count = (if False then Some None else None)\<rparr>"
proof (intro conjI)
  show h: "handlers ''scroll'' = Some Cur_scroll"
    by (rule handlers_scroll)
  show "cmd_handler True (Some 3, [''scroll'', ''10'']) =
       Inr \<lparr>call_handler = Cur_scroll, call_args = [''10''],
            call_count = (if True then Some (Some 3) else None)\<rparr>"
    using h by (rule count_keyword_follows_flag)
  show "cmd_handler False (None, [''scroll'', ''10'']) =
       Inr \<lparr>call_handler = Cur_scroll, call_args = [''10''],
            call_count = (if False then Some None else None)\<rparr>"
    using h by (rule count_keyword_follows_flag)
qed

section \<open>The dispatcher and unknown names\<close>

text \<open>
  Claim C3, as the specification states it: for a command name that is not registered,
  dispatch fails with UnknownCommandError and with no other error. The code looks the
  name up with \<^verbatim>\<open>handlers[cmd]\<close>, which raises Python's KeyError.
\<close>

theorem unknown_name_counterexample:
  "cmd_handler True (None, [''nosuchcmd'']) = Inl (KeyError ''nosuchcmd'')
   \<and> cmd_handler True (None, [''nosuchcmd'']) \<noteq> Inl UnknownCommandError"
  by (simp add: cmd_handler_missing [OF handlers_nosuchcmd])

text \<open>
  Claim C3, amended: for every invocation whose command name is not a key of the handler
  table, \<^verbatim>\<open>cmd_handler\<close> fails with KeyError carrying that name, whatever the count, the
  arguments and the sender's count attribute; no handler is called.
\<close>

theorem unknown_name_raises_KeyError:
  "handlers name = None \<Longrightarrow>
   cmd_handler sender_count (count, name # args) = Inl (KeyError name)"
  by (rule cmd_handler_missing)

theorem unknown_name_raises_KeyError_witness:
  "handlers ''scroll_perc_x'' = None
   \<and> cmd_handler True (Some 50, [''scroll_perc_x'']) = Inl (KeyError ''scroll_perc_x'')"
proof (rule conjI)
  show "handlers ''scroll_perc_x'' = None"
    by (rule handlers_scroll_perc_x)
  then show "cmd_handler True (Some 50, [''scroll_perc_x'']) = Inl (KeyError ''scroll_perc_x'')"
    by (rule unknown_name_raises_KeyError)
qed

section \<open>The doubly bound key of the handler table\<close>

text \<open>
  Claim C9: the key \<^verbatim>\<open>scroll_perc_y\<close> is written twice in the handler table and the
  later item wins. Every dispatch of \<^verbatim>\<open>scroll_perc_y\<close> calls \<^verbatim>\<open>cur_scroll_percent_y\<close>,
  and no dispatch at all, whatever the name, the arguments, the count and the sender,
  calls \<^verbatim>\<open>cur_scroll_percent_x\<close>.
\<close>

theorem scroll_perc_y_bound_twice:
  "cmd_handler sender_count (count, ''scroll_perc_y'' # args) =
     Inr \<lparr>call_handler = Cur_scroll_percent_y, call_args = args,
          call_count = (if sender_count then Some count else None)\<rparr>
   \<and> cmd_handler sender_count' tpl \<noteq>
       Inr \<lparr>call_handler = Cur_scroll_percent_x, call_args = args', call_count = k\<rparr>"
proof (rule conjI)
  show "cmd_handler sender_count (count, ''scroll_perc_y'' # args) =
     Inr \<lparr>call_handler = Cur_scroll_percent_y, call_args = args,
          call_count = (if sender_count then Some count else None)\<rparr>"
    by (rule cmd_handler_found [OF handlers_scroll_perc_y])
  show "cmd_handler sender_count' tpl \<noteq>
       Inr \<lparr>call_handler = Cur_scroll_percent_x, call_args = args', call_count = k\<rparr>"
  proof
    assume "cmd_handler sender_count' tpl =
       Inr \<lparr>call_handler = Cur_scroll_percent_x, call_args = args', call_count = k\<rparr>"
    from cmd_handler_Inr [OF this] show False
      by (simp add: handlers_never_percent_x)
  qed
qed

section \<open>Facts about the tokenizer\<close>

lemma handlers_dom:
  "handlers cmd = Some h \<Longrightarrow>
   cmd \<in> {''open'', ''tabopen'', ''quit'', ''tabclose'', ''tabprev'', ''tabnext'', ''reload'',
          ''stop'', ''back'', ''forward'', ''print'', ''scroll'', ''scroll_perc_y'', ''undo'',
          ''pyeval''}"
  by (simp add: handlers_map_of handler_items_def split: if_splits)

lemma split_ws_acc_token:
  "list_all (\<lambda>c. \<not> is_space c) t \<Longrightarrow>
   split_ws_acc cur (t @ rest) = split_ws_acc (cur @ t) rest"
  by (induction t arbitrary: cur) simp_all

lemma split_ws_acc_spaces:
  "list_all is_space ws \<Longrightarrow> split_ws_acc [] (ws @ rest) = split_ws_acc [] rest"
  by (induction ws) simp_all

lemma split_ws_acc_end:
  "list_all is_space ws \<Longrightarrow> split_ws_acc cur ws = (if cur = [] then [] else [cur])"
  by (induction ws arbitrary: cur) simp_all

lemma digit_not_space: "is_digit c \<Longrightarrow> \<not> is_space c"
  by (auto simp: is_digit_def is_space_def)

lemma digits_not_spaces: "list_all is_digit ds \<Longrightarrow> list_all (\<lambda>c. \<not> is_space c) ds"
  by (induction ds) (simp_all add: digit_not_space)

lemma split_ws_count_only:
  assumes "ds \<noteq> []" and "list_all is_digit ds"
    and "list_all is_space ws1" and "list_all is_space ws2"
  shows "split_ws (ws1 @ ds @ ws2) = [ds]"
proof -
  have "split_ws (ws1 @ ds @ ws2) = split_ws_acc [] (ds @ ws2)"
    using assms(3) by (simp add: split_ws_def split_ws_acc_spaces)
  also have "\<dots> = split_ws_acc ds ws2"
    using split_ws_acc_token [OF digits_not_spaces [OF assms(2)], of "[]" ws2] by simp
  also have "\<dots> = [ds]"
    using assms(1,4) by (simp add: split_ws_acc_end)
  finally show ?thesis .
qed

lemma handler_name_is_token:
  "handlers cmd = Some h \<Longrightarrow> list_all (\<lambda>c. \<not> is_space c) cmd \<and> cmd \<noteq> []"
  by (drule handlers_dom) (auto simp: is_space_def)

lemma split_ws_5_name_arg1:
  assumes "handlers cmd = Some h"
  shows "split_ws (''5 '' @ cmd @ '' arg1'') = [''5'', cmd, ''arg1'']"
proof -
  from handler_name_is_token [OF assms]
  have ns: "list_all (\<lambda>c. \<not> is_space c) cmd" and ne: "cmd \<noteq> []"
    by simp_all
  have "split_ws (''5 '' @ cmd @ '' arg1'') = ''5'' # split_ws_acc [] (cmd @ '' arg1'')"
    by (simp add: split_ws_def is_space_def)
  also have "split_ws_acc [] (cmd @ '' arg1'') = split_ws_acc cmd '' arg1''"
    using split_ws_acc_token [OF ns, of "[]"] by simp
  also have "\<dots> = [cmd, ''arg1'']"
    using ne by (simp add: is_space_def)
  finally show ?thesis .
qed

lemma count_of_digits_5: "count_of_digits ''5'' = 5"
  by (simp add: count_of_digits_def digit_val_def)

section \<open>A count, a name and an argument\<close>

text \<open>
  Claim C5: for every command name of the handler table whose command accepts a count,
  dispatching the command line \<^verbatim>\<open>5 name arg1\<close> calls that command's handler with
  \<^verbatim>\<open>count = 5\<close> and the positional arguments \<^verbatim>\<open>['arg1']\<close>; the name is not among them.
  The line parses to the invocation with count 5, that name and the argument
  \<^verbatim>\<open>arg1\<close>, and \<^verbatim>\<open>cmd_handler\<close>, given the tuple of this invocation by a sender that
  supports a count, makes exactly that call.
\<close>

theorem count_name_arg_dispatch:
  assumes "handlers name = Some h"
  shows "parse_line (''5 '' @ name @ '' arg1'') =
           Inr \<lparr>inv_count = Some 5, inv_name = name, inv_args = [''arg1'']\<rparr>
       \<and> cmd_handler True
           (invocation_tpl \<lparr>inv_count = Some 5, inv_name = name, inv_args = [''arg1'']\<rparr>) =
           Inr \<lparr>call_handler = h, call_args = [''arg1''], call_count = Some (Some 5)\<rparr>"
proof (rule conjI)
  show "parse_line (''5 '' @ name @ '' arg1'') =
           Inr \<lparr>inv_count = Some 5, inv_name = name, inv_args = [''arg1'']\<rparr>"
    unfolding parse_line_def split_ws_5_name_arg1 [OF assms]
    by (simp add: is_count_token_def is_digit_def count_of_digits_5)
  show "cmd_handler True
           (invocation_tpl \<lparr>inv_count = Some 5, inv_name = name, inv_args = [''arg1'']\<rparr>) =
           Inr \<lparr>call_handler = h, call_args = [''arg1''], call_count = Some (Some 5)\<rparr>"
    using cmd_handler_found [OF assms, of True "Some 5" "[''arg1'']"]
    by (simp add: invocation_tpl_def)
qed

theorem count_name_arg_dispatch_witness:
  "handlers ''scroll'' = Some Cur_scroll
   \<and> parse_line ''5 scroll arg1'' =
       Inr \<lparr>inv_count = Some 5, inv_name = ''scroll'', inv_args = [''arg1'']\<rparr>
   \<and> cmd_handler True (Some 5, [''scroll'', ''arg1'']) =
       Inr \<lparr>call_handler = Cur_scroll, call_args = [''arg1''], call_count = Some (Some 5)\<rparr>"
  using handlers_scroll count_name_arg_dispatch [OF handlers_scroll]
  by (simp add: invocation_tpl_def)

section \<open>A count with no command\<close>

text \<open>
  Claim C7: every line that consists of a count prefix, a non-empty run of decimal
  digits, with no command name after it, is rejected by the parser with
  MalformedCountError. Whitespace before and after the digits changes nothing.
\<close>

theorem count_without_command:
  assumes "ds \<noteq> []" and "list_all is_digit ds"
    and "list_all is_space ws1" and "list_all is_space ws2"
  shows "parse_line (ws1 @ ds @ ws2) = Inl MalformedCountError"
  using assms by (simp add: parse_line_def split_ws_count_only is_count_token_def)

theorem count_without_command_witness:
  "''42'' \<noteq> [] \<and> list_all is_digit ''42'' \<and> list_all is_space [] \<and> list_all is_space '' ''
   \<and> parse_line ([] @ ''42'' @ '' '') = Inl MalformedCountError
   \<and> parse_line ''42'' = Inl MalformedCountError"
proof -
  have a: "''42'' \<noteq> []" by simp
  have b: "list_all is_digit ''42''" by (simp add: is_digit_def)
  have c: "list_all is_space []" by simp
  have d: "list_all is_space '' ''" by (simp add: is_space_def)
  have e: "parse_line ([] @ ''42'' @ '' '') = Inl MalformedCountError"
    using a b c d by (rule count_without_command)
  have f: "parse_line ([] @ ''42'' @ []) = Inl MalformedCountError"
    using a b c c by (rule count_without_command)
  from a b c d e f show ?thesis by simp
qed

section \<open>Facts about the slot\<close>

lemma slot_Three: "cmd_handler_slot invoke sc (Three count name args) = Dispatch_error ValueError"
  by (simp add: cmd_handler_slot_def)

lemma slot_Two_returned:
  assumes "handlers name = Some h"
    and "invoke \<lparr>call_handler = h, call_args = args,
                 call_count = (if sc then Some count else None)\<rparr> = None"
  shows "cmd_handler_slot invoke sc (Two count (name # args)) =
           Returned \<lparr>call_handler = h, call_args = args,
                     call_count = (if sc then Some count else None)\<rparr>"
  using assms(2) by (simp add: cmd_handler_slot_def cmd_handler_found [OF assms(1)])

lemma slot_Two_handler_raises:
  assumes "handlers name = Some h"
    and "invoke \<lparr>call_handler = h, call_args = args,
                 call_count = (if sc then Some count else None)\<rparr> = Some x"
  shows "cmd_handler_slot invoke sc (Two count (name # args)) =
           Handler_error \<lparr>call_handler = h, call_args = args,
                          call_count = (if sc then Some count else None)\<rparr> x"
  using assms(2) by (simp add: cmd_handler_slot_def cmd_handler_found [OF assms(1)])

lemma slot_Two_unknown:
  "handlers name = None \<Longrightarrow>
   cmd_handler_slot invoke sc (Two count (name # args)) = Dispatch_error (KeyError name)"
  by (simp add: cmd_handler_slot_def cmd_handler_missing)

lemma slot_Returned_Two:
  "cmd_handler_slot invoke sc n = Returned c \<Longrightarrow>
   \<exists>count argv. n = Two count argv \<and> cmd_handler sc (count, argv) = Inr c \<and> invoke c = None"
  by (cases n) (auto simp: cmd_handler_slot_def split: sum.splits option.splits)

lemma cmd_handler_Inr_shape:
  "cmd_handler sc (count, argv) = Inr c \<Longrightarrow>
   \<exists>name args. argv = name # args \<and> handlers name = Some (call_handler c)
     \<and> call_args c = args \<and> call_count c = (if sc then Some count else None)"
  by (cases argv) (auto simp: cmd_handler_def split: option.splits if_splits)

lemma slot_Returned_iff:
  "cmd_handler_slot invoke sc n = Returned c \<longleftrightarrow>
   (\<exists>count argv. n = Two count argv \<and> cmd_handler sc (count, argv) = Inr c
      \<and> invoke c = None)"
  by (cases n) (auto simp: cmd_handler_slot_def split: sum.splits option.splits)

lemma slot_Dispatch_error:
  "cmd_handler_slot invoke sc n = Dispatch_error e \<Longrightarrow>
   (\<exists>count name args. n = Three count name args \<and> e = ValueError)
   \<or> (\<exists>count argv. n = Two count argv \<and> cmd_handler sc (count, argv) = Inl e)"
  by (cases n) (auto simp: cmd_handler_slot_def split: sum.splits option.splits)

section \<open>The invocation notification\<close>

text \<open>
  Claim C6, as the specification states it: for every successful dispatch the invocation
  notification fires with the three separate components count, name and arguments, after
  the action has been called. The code cannot take such a notification: given the three
  components \<^verbatim>\<open>(5, 'scroll', ['10'])\<close>, line 138 raises ValueError and no action is
  called, even when every handler would return; given the pair \<^verbatim>\<open>(5, ['scroll', '10'])\<close>
  the dispatch succeeds.
\<close>

theorem notification_shape_counterexample:
  "cmd_handler_slot all_return True (Three (Some 5) ''scroll'' [''10'']) =
     Dispatch_error ValueError
   \<and> cmd_handler_slot all_return True (Two (Some 5) [''scroll'', ''10'']) =
       Returned \<lparr>call_handler = Cur_scroll, call_args = [''10''],
                 call_count = Some (Some 5)\<rparr>"
proof (rule conjI)
  show "cmd_handler_slot all_return True (Three (Some 5) ''scroll'' [''10'']) =
     Dispatch_error ValueError"
    by (rule slot_Three)
  have "all_return \<lparr>call_handler = Cur_scroll, call_args = [''10''],
          call_count = (if True then Some (Some 5) else None)\<rparr> = None"
    by (simp add: all_return_def)
  from slot_Two_returned [where invoke = all_return and sc = True and count = "Some 5"
      and args = "[''10'']", OF handlers_scroll this]
  show "cmd_handler_slot all_return True (Two (Some 5) [''scroll'', ''10'']) =
       Returned \<lparr>call_handler = Cur_scroll, call_args = [''10''],
                 call_count = Some (Some 5)\<rparr>"
    by simp
qed

text \<open>
  Claim C6, amended: for every successful dispatch, the invocation notification that
  \<^verbatim>\<open>cmd_handler\<close> receives has two components, the count and \<^verbatim>\<open>argv\<close>, and \<^verbatim>\<open>argv\<close> is the
  name followed by the arguments; the action is the handler that the table gives for
  this name, and it is \<^verbatim>\<open>cmd_handler\<close> that calls it, from the notification: with the
  arguments that follow the name and, when the sender supports a count, with the count
  of the notification by keyword. The dispatch is successful when this call returns.
\<close>

theorem notification_is_pair:
  assumes "cmd_handler_slot invoke sender_count n = Returned c"
  shows "\<exists>count name args.
           n = Two count (name # args)
         \<and> handlers name = Some (call_handler c)
         \<and> call_args c = args
         \<and> call_count c = (if sender_count then Some count else None)
         \<and> invoke c = None"
proof -
  from slot_Returned_Two [OF assms] obtain count argv where
    n: "n = Two count argv" and h: "cmd_handler sender_count (count, argv) = Inr c"
    and i: "invoke c = None"
    by blast
  from cmd_handler_Inr_shape [OF h] n i show ?thesis
    by blast
qed

theorem notification_is_pair_witness:
  "cmd_handler_slot all_return False (Two (Some 7) [''tabclose'', ''now'']) =
     Returned \<lparr>call_handler = Cur_close, call_args = [''now''], call_count = None\<rparr>
   \<and> (\<exists>count name args.
         Two (Some 7) [''tabclose'', ''now''] = Two count (name # args)
       \<and> handlers name =
           Some (call_handler
             \<lparr>call_handler = Cur_close, call_args = [''now''], call_count = None\<rparr>)
       \<and> call_args \<lparr>call_handler = Cur_close, call_args = [''now''], call_count = None\<rparr>
           = args
       \<and> call_count \<lparr>call_handler = Cur_close, call_args = [''now''], call_count = None\<rparr>
           = (if False then Some count else None)
       \<and> all_return \<lparr>call_handler = Cur_close, call_args = [''now''], call_count = None\<rparr>
           = None)"
proof -
  have "all_return \<lparr>call_handler = Cur_close, call_args = [''now''],
          call_count = (if False then Some (Some 7) else None)\<rparr> = None"
    by (simp add: all_return_def)
  from slot_Two_returned [where invoke = all_return and sc = False and count = "Some 7"
      and args = "[''now'']", OF handlers_tabclose this]
  have r: "cmd_handler_slot all_return False (Two (Some 7) [''tabclose'', ''now'']) =
     Returned \<lparr>call_handler = Cur_close, call_args = [''now''], call_count = None\<rparr>"
    by simp
  from r notification_is_pair [OF r] show ?thesis
    by (rule conjI)
qed

section \<open>The matcher returns to its initial state\<close>

lemma compare_table_reset:
  "compare_table bt st = (st', out) \<Longrightarrow> out \<noteq> Nothing \<Longrightarrow> st' = Idle"
  by (auto simp: compare_table_def split: option.splits if_splits)

lemma handle_reset:
  "handle bt st e = (st', out) \<Longrightarrow> out \<noteq> Nothing \<Longrightarrow> st' = Idle"
  by (auto simp: handle_def split: if_splits dest: compare_table_reset)

lemma handle_cancel: "handle bt st cancel_key = (Idle, Nothing)"
  by (simp add: handle_def)

lemma handle_Failed: "handle bt st e = (st', Failed err) \<Longrightarrow> err = NoMatchError"
  by (auto simp: handle_def compare_table_def split: if_splits option.splits)

lemma feed_reset:
  "feed bt st es = (st', outs) \<Longrightarrow> outs \<noteq> [] \<Longrightarrow> last outs \<noteq> Nothing \<Longrightarrow> st' = Idle"
proof (induction es arbitrary: st st' outs)
  case Nil
  then show ?case by simp
next
  case (Cons e es)
  obtain s1 o1 where h: "handle bt st e = (s1, o1)"
    by (cases "handle bt st e")
  obtain s2 os where f: "feed bt s1 es = (s2, os)"
    by (cases "feed bt s1 es")
  from Cons.prems(1) h f have eq: "st' = s2" "outs = o1 # os"
    by simp_all
  show ?case
  proof (cases es)
    case Nil
    with f have same: "s2 = s1" "os = []"
      by simp_all
    with eq Cons.prems(3) have "o1 \<noteq> Nothing"
      by simp
    with h have "s1 = Idle"
      by (rule handle_reset)
    with same eq show ?thesis
      by simp
  next
    case (Cons e' es')
    with f have ne: "os \<noteq> []"
      by (auto split: prod.splits)
    with eq Cons.prems(3) have "last os \<noteq> Nothing"
      by simp
    from Cons.IH [OF f ne this] eq show ?thesis
      by simp
  qed
qed

lemma handle_delete_3_d:
  "handle delete_bindings \<lparr>pending_digits = ''3'', pending_keys = []\<rparr> ''d'' =
     (Idle, Resolved (Some 3) ''delete'')"
  by (simp add: handle_def cancel_key_def append_event_def compare_table_def
      delete_bindings_def has_longer_def pending_count_def is_digit_key_def is_digit_def
      count_of_digits_def digit_val_def)

lemma handle_scroll_g_x:
  "handle scroll_bindings \<lparr>pending_digits = ''12'', pending_keys = [''g'']\<rparr> ''x'' =
     (Idle, Failed NoMatchError)"
  by (simp add: handle_def cancel_key_def append_event_def compare_table_def
      scroll_bindings_def has_longer_def is_digit_key_def is_digit_def fallback_def)

lemma handle_prefix_g_x:
  "handle prefix_bindings \<lparr>pending_digits = [], pending_keys = [''g'']\<rparr> ''x'' =
     (Idle, Resolved None ''top'')"
  by (simp add: handle_def cancel_key_def append_event_def compare_table_def
      prefix_bindings_def has_longer_def pending_count_def is_digit_key_def is_digit_def
      fallback_def)

text \<open>
  Claim C8: after every resolved match and after every NoMatchError, the state of the
  matcher is the initial state exactly: no pending digit and no pending key. This holds
  for a key event received in any state and with any binding table.
\<close>

theorem matcher_idle_after_emission:
  assumes "handle bt st e = (st', out)"
    and "(\<exists>c t. out = Resolved c t) \<or> out = Failed NoMatchError"
  shows "st' = Idle \<and> pending_digits st' = [] \<and> pending_keys st' = []"
proof -
  from assms(2) have "out \<noteq> Nothing"
    by auto
  with assms(1) have "st' = Idle"
    by (rule handle_reset)
  then show ?thesis
    by (simp add: Idle_def)
qed

theorem matcher_idle_after_emission_witness:
  "handle delete_bindings \<lparr>pending_digits = ''3'', pending_keys = []\<rparr> ''d'' =
     (Idle, Resolved (Some 3) ''delete'')
   \<and> handle scroll_bindings \<lparr>pending_digits = ''12'', pending_keys = [''g'']\<rparr> ''x'' =
     (Idle, Failed NoMatchError)
   \<and> handle prefix_bindings \<lparr>pending_digits = [], pending_keys = [''g'']\<rparr> ''x'' =
     (Idle, Resolved None ''top'')
   \<and> Idle = Idle \<and> pending_digits Idle = [] \<and> pending_keys Idle = []"
proof -
  have r: "(\<exists>c t. Resolved (Some 3) ''delete'' = Resolved c t)
      \<or> Resolved (Some 3) ''delete'' = Failed NoMatchError"
    by simp
  have n: "(\<exists>c t. Failed NoMatchError = Resolved c t) \<or> Failed NoMatchError = Failed NoMatchError"
    by simp
  from matcher_idle_after_emission [OF handle_delete_3_d r]
    matcher_idle_after_emission [OF handle_scroll_g_x n]
    handle_delete_3_d handle_scroll_g_x handle_prefix_g_x
  show ?thesis
    by blast
qed

section \<open>What \<^verbatim>\<open>pyeval\<close> catches\<close>

lemma pyeval_out_value: "try_body py s = Inr out \<Longrightarrow> pyeval_out py s = Inr out"
  by (simp add: pyeval_out_def)

lemma pyeval_out_caught:
  "try_body py s = Inl e \<Longrightarrow> exc_is_Exception e \<Longrightarrow>
   exc_class_name e = Attr_str name \<Longrightarrow> exc_str e = Inr msg \<Longrightarrow>
   pyeval_out py s = Inr (name @ '': '' @ msg)"
  by (simp add: pyeval_out_def except_Exception_def)

lemma pyeval_out_propagated:
  "try_body py s = Inl e \<Longrightarrow> \<not> exc_is_Exception e \<Longrightarrow> pyeval_out py s = Inl e"
  by (simp add: pyeval_out_def except_Exception_def)

lemma pyeval_out_str_raises:
  "try_body py s = Inl e \<Longrightarrow> exc_is_Exception e \<Longrightarrow>
   exc_class_name e = Attr_str name \<Longrightarrow> exc_str e = Inl x \<Longrightarrow>
   pyeval_out py s = Inl x"
  by (simp add: pyeval_out_def except_Exception_def)

lemma pyeval_out_name_raises:
  "try_body py s = Inl e \<Longrightarrow> exc_is_Exception e \<Longrightarrow>
   exc_class_name e = Attr_raises x \<Longrightarrow> pyeval_out py s = Inl x"
  by (simp add: pyeval_out_def except_Exception_def)

lemma pyeval_out_Inr_iff:
  "pyeval_out py s = Inr out \<longleftrightarrow>
   (try_body py s = Inr out \<or>
    (\<exists>e name msg. try_body py s = Inl e \<and> exc_is_Exception e
        \<and> exc_class_name e = Attr_str name \<and> exc_str e = Inr msg
        \<and> out = name @ '': '' @ msg))"
  by (auto simp: pyeval_out_def except_Exception_def
      split: sum.splits attr.splits if_splits)

lemma pyeval_reraises:
  "pyeval_out py s = Inl e \<Longrightarrow> pyeval py q s = (None, Some e)"
  by (simp add: pyeval_def)

lemma pyeval_shows:
  "pyeval_out py s = Inr out \<Longrightarrow> qt_currentWidget q = Inr (Some t) \<Longrightarrow>
   qt_setUrl q = None \<Longrightarrow> py_encode_utf8 py out = Inr bytes \<Longrightarrow>
   qt_setContent q = None \<Longrightarrow>
   pyeval py q s =
     (Some (t\<lparr>tab_url := ''about:pyeval'', tab_content := bytes,
               tab_mimetype := ''text/plain''\<rparr>), None)"
  by (simp add: pyeval_def)

lemma pyeval_no_tab:
  "pyeval_out py s = Inr out \<Longrightarrow> qt_currentWidget q = Inr None \<Longrightarrow>
   pyeval py q s = (None, Some none_has_no_setUrl)"
  by (simp add: pyeval_def)

lemma pyeval_encode_fails:
  "pyeval_out py s = Inr out \<Longrightarrow> qt_currentWidget q = Inr (Some t) \<Longrightarrow>
   qt_setUrl q = None \<Longrightarrow> py_encode_utf8 py out = Inl e \<Longrightarrow>
   pyeval py q s = (Some (t\<lparr>tab_url := ''about:pyeval''\<rparr>), Some e)"
  by (simp add: pyeval_def)

lemma pyeval_returns_iff:
  "snd (pyeval py q s) = None \<longleftrightarrow>
   (\<exists>out t bytes. pyeval_out py s = Inr out \<and> qt_currentWidget q = Inr (Some t)
      \<and> qt_setUrl q = None \<and> py_encode_utf8 py out = Inr bytes
      \<and> qt_setContent q = None)"
  by (auto simp: pyeval_def split: sum.splits option.splits)

lemma try_body_exit:
  "try_body python_fragment ''sys.exit()'' =
     Inl (Py_exc False (Attr_str ''SystemExit'') (Inr []))"
  by (simp add: try_body_def python_fragment_def eval_fragment_def)

lemma try_body_div:
  "try_body python_fragment ''1/0'' =
     Inl (Py_exc True (Attr_str ''ZeroDivisionError'') (Inr ''division by zero''))"
  by (simp add: try_body_def python_fragment_def eval_fragment_def)

lemma try_body_sum: "try_body python_fragment ''1+1'' = Inr ''2''"
  by (simp add: try_body_def python_fragment_def eval_fragment_def repr_fragment_def)

lemma pyeval_str_raises_example:
  "pyeval python_str_raises blank_window s =
     (None, Some (Py_exc True (Attr_str ''ZeroDivisionError'') (Inr ''division by zero'')))"
proof -
  have "try_body python_str_raises s = Inl str_raises"
    by (simp add: try_body_def python_str_raises_def)
  then have "pyeval_out python_str_raises s =
      Inl (Py_exc True (Attr_str ''ZeroDivisionError'') (Inr ''division by zero''))"
    by (rule pyeval_out_str_raises) (simp_all add: str_raises_def)
  then show ?thesis
    by (rule pyeval_reraises)
qed

text \<open>
  Claim C10, as stated: for every input string \<^verbatim>\<open>pyeval\<close> never propagates an exception.
  The clause \<^verbatim>\<open>except Exception\<close> does not catch \<^verbatim>\<open>SystemExit\<close>: on the input
  \<^verbatim>\<open>sys.exit()\<close> the exception leaves \<^verbatim>\<open>pyeval\<close>, no text is produced and no tab is
  touched.
\<close>

theorem pyeval_propagates_counterexample:
  "pyeval python_fragment blank_window ''sys.exit()'' =
     (None, Some (Py_exc False (Attr_str ''SystemExit'') (Inr [])))"
  by (rule pyeval_reraises) (simp add: pyeval_out_propagated [OF try_body_exit])

text \<open>
  Claim C10, amended: for every input string, when the evaluation, \<^verbatim>\<open>eval\<close> followed by
  \<^verbatim>\<open>repr\<close>, returns, the output text of \<^verbatim>\<open>pyeval\<close> is the repr of the value; when it
  raises an instance of \<^verbatim>\<open>Exception\<close> whose class name is read as a string and whose
  \<^verbatim>\<open>str\<close> returns, the output text is the string \<^verbatim>\<open>ExceptionClassName: message\<close>. In
  both cases, when the current tab is obtained, its \<^verbatim>\<open>setUrl\<close> and \<^verbatim>\<open>setContent\<close> return
  and the text can be encoded, \<^verbatim>\<open>pyeval\<close> shows the text in the tab and raises nothing.
\<close>

theorem pyeval_output_text:
  assumes "try_body py s = Inr out \<or>
      (\<exists>e name msg. try_body py s = Inl e \<and> exc_is_Exception e
          \<and> exc_class_name e = Attr_str name \<and> exc_str e = Inr msg
          \<and> out = name @ '': '' @ msg)"
    and "qt_currentWidget q = Inr (Some t)"
    and "qt_setUrl q = None"
    and "py_encode_utf8 py out = Inr bytes"
    and "qt_setContent q = None"
  shows "pyeval_out py s = Inr out
       \<and> pyeval py q s =
           (Some (t\<lparr>tab_url := ''about:pyeval'', tab_content := bytes,
                     tab_mimetype := ''text/plain''\<rparr>), None)"
proof -
  from assms(1) have out: "pyeval_out py s = Inr out"
    by (simp add: pyeval_out_Inr_iff)
  from out pyeval_shows [OF out assms(2-5)] show ?thesis
    by (rule conjI)
qed

theorem pyeval_output_text_witness:
  "try_body python_fragment ''1/0'' =
     Inl (Py_exc True (Attr_str ''ZeroDivisionError'') (Inr ''division by zero''))
   \<and> qt_currentWidget blank_window = Inr (Some blank_tab)
   \<and> qt_setUrl blank_window = None
   \<and> py_encode_utf8 python_fragment ''ZeroDivisionError: division by zero'' =
       Inr ''ZeroDivisionError: division by zero''
   \<and> qt_setContent blank_window = None
   \<and> pyeval python_fragment blank_window ''1/0'' =
       (Some \<lparr>tab_url = ''about:pyeval'',
              tab_content = ''ZeroDivisionError: division by zero'',
              tab_mimetype = ''text/plain''\<rparr>, None)
   \<and> try_body python_fragment ''1+1'' = Inr ''2''
   \<and> pyeval python_fragment blank_window ''1+1'' =
       (Some \<lparr>tab_url = ''about:pyeval'', tab_content = ''2'',
              tab_mimetype = ''text/plain''\<rparr>, None)"
proof -
  have enc: "\<And>x. py_encode_utf8 python_fragment x = Inr x"
    by (simp add: python_fragment_def)
  have w: "qt_currentWidget blank_window = Inr (Some blank_tab)"
    and u: "qt_setUrl blank_window = None"
    and c: "qt_setContent blank_window = None"
    by (simp_all add: blank_window_def)
  have h1: "try_body python_fragment ''1/0'' = Inr ''ZeroDivisionError: division by zero'' \<or>
      (\<exists>e name msg. try_body python_fragment ''1/0'' = Inl e \<and> exc_is_Exception e
         \<and> exc_class_name e = Attr_str name \<and> exc_str e = Inr msg
         \<and> ''ZeroDivisionError: division by zero'' = name @ '': '' @ msg)"
    by (simp add: try_body_div)
  have h2: "try_body python_fragment ''1+1'' = Inr ''2'' \<or>
      (\<exists>e name msg. try_body python_fragment ''1+1'' = Inl e \<and> exc_is_Exception e
         \<and> exc_class_name e = Attr_str name \<and> exc_str e = Inr msg
         \<and> ''2'' = name @ '': '' @ msg)"
    by (simp add: try_body_sum)
  from pyeval_output_text [OF h1 w u enc c] pyeval_output_text [OF h2 w u enc c]
    try_body_div try_body_sum enc w u c
  show ?thesis
    by (simp add: blank_tab_def)
qed

end
